theory Spec2Isabelle
  imports Main "HOL-Library.Word"
begin

section \<open>book-organizer: document ingestion and reconciliation\<close>

text \<open>
  A shallow embedding of the Go packages \<^verbatim>\<open>internal/documents\<close> (the document service and
  its file classifier), \<^verbatim>\<open>internal/books\<close> (the book service), \<^verbatim>\<open>internal/database\<close>
  (the PostgreSQL repository) and \<^verbatim>\<open>internal/common\<close> (the bucket storage).

  Go strings are byte sequences, so a Go \<^verbatim>\<open>string\<close> is a \<^typ>\<open>string\<close> here and indexing
  counts bytes. A \<^verbatim>\<open>[]byte\<close> is a list of 8-bit words. A Go function that returns
  \<^verbatim>\<open>(value, error)\<close> returns a sum or a pair with an optional error; a run-time panic is a
  result of its own. Everything a function mutates (the uploaded file's cursor, the draft
  document behind a pointer, the bucket, the database) is passed in and returned.
\<close>

subsection \<open>Errors\<close>

datatype error =
    New string                \<comment> \<open>\<^verbatim>\<open>errors.New(msg)\<close>\<close>
  | Wrap error string         \<comment> \<open>\<^verbatim>\<open>errors.Wrap(err, msg)\<close>\<close>
  | EOF                       \<comment> \<open>\<^verbatim>\<open>io.EOF\<close>\<close>
  | ErrUnexpectedEOF          \<comment> \<open>\<^verbatim>\<open>io.ErrUnexpectedEOF\<close>\<close>
  | ErrEmptyBuffer            \<comment> \<open>\<^verbatim>\<open>filetype.ErrEmptyBuffer\<close>\<close>
  | DriverError               \<comment> \<open>any failure reported by the file system, the bucket or the SQL driver\<close>

definition ErrInvalidFileType :: error where
  "ErrInvalidFileType = New ''invalid file type''"

subsection \<open>Strings and paths of the Go standard library\<close>

text \<open>
  \<^verbatim>\<open>strings.ReplaceAll(s, old, new)\<close>: the non-overlapping occurrences of \<^verbatim>\<open>old\<close>, found from
  left to right, are replaced. For an empty \<^verbatim>\<open>old\<close> Go inserts \<^verbatim>\<open>new\<close> before every
  character and at the end.
\<close>

function ReplaceAll :: "string \<Rightarrow> string \<Rightarrow> string \<Rightarrow> string" where
  "ReplaceAll s old new =
     (if old = [] then concat (map (\<lambda>c. new @ [c]) s) @ new
      else if s = [] then []
      else if take (length old) s = old then new @ ReplaceAll (drop (length old) s) old new
      else hd s # ReplaceAll (tl s) old new)"
  by pat_completeness auto
termination
  by (relation "measure (\<lambda>(s, old, new). length s)") (auto simp: neq_Nil_conv)

declare ReplaceAll.simps [simp del]

text \<open>
  \<^verbatim>\<open>filepath.Ext(path)\<close> on a system whose separator is the slash: the suffix that starts at
  the last dot of the last path element, or the empty string. The second argument of the
  loop is Go's index \<^verbatim>\<open>i\<close> plus one.
\<close>

fun Ext_loop :: "string \<Rightarrow> nat \<Rightarrow> string" where
  "Ext_loop path 0 = []"
| "Ext_loop path (Suc i) =
     (if path ! i = CHR ''/'' then []
      else if path ! i = CHR ''.'' then drop i path
      else Ext_loop path i)"

definition Ext :: "string \<Rightarrow> string" where
  "Ext path = Ext_loop path (length path)"

text \<open>
  \<^verbatim>\<open>filepath.Clean(path)\<close>, Rob Pike's lexical cleaning, with the output buffer as a list:
  \<^verbatim>\<open>out.w\<close> is the length of \<open>out\<close>, and \<open>p\<close> is the part of the path not yet read.
\<close>

function backtrack :: "string \<Rightarrow> nat \<Rightarrow> nat \<Rightarrow> nat" where
  "backtrack out w dotdot =
     (if w > dotdot \<and> out ! w \<noteq> CHR ''/'' then backtrack out (w - 1) dotdot else w)"
  by pat_completeness auto
termination
  by (relation "measure (\<lambda>(out, w, dotdot). w)") auto

declare backtrack.simps [simp del]

function Clean_loop :: "bool \<Rightarrow> string \<Rightarrow> string \<Rightarrow> nat \<Rightarrow> string" where
  "Clean_loop rooted p out dotdot =
     (if p = [] then out
      else if hd p = CHR ''/'' then Clean_loop rooted (tl p) out dotdot
      else if hd p = CHR ''.'' \<and> (tl p = [] \<or> hd (tl p) = CHR ''/'')
        then Clean_loop rooted (tl p) out dotdot
      else if hd p = CHR ''.'' \<and> hd (tl p) = CHR ''.''
              \<and> (tl (tl p) = [] \<or> hd (tl (tl p)) = CHR ''/'')
        then (if length out > dotdot
                then Clean_loop rooted (tl (tl p))
                       (take (backtrack out (length out - 1) dotdot) out) dotdot
              else if \<not> rooted
                then (let out' = (if length out > 0 then out @ ''/'' else out) @ ''..''
                      in Clean_loop rooted (tl (tl p)) out' (length out'))
              else Clean_loop rooted (tl (tl p)) out dotdot)
      else Clean_loop rooted (dropWhile (\<lambda>c. c \<noteq> CHR ''/'') p)
             ((if rooted \<and> length out \<noteq> 1 \<or> \<not> rooted \<and> length out \<noteq> 0
                 then out @ ''/'' else out) @ takeWhile (\<lambda>c. c \<noteq> CHR ''/'') p)
             dotdot)"
  by pat_completeness auto
termination
proof (relation "measure (\<lambda>(rooted, p, out, dotdot). length p)", goal_cases)
  case 1
  show ?case by simp
next
  case (2 rooted p out dotdot)
  then show ?case by (cases p) auto
next
  case (3 rooted p out dotdot)
  then show ?case by (cases p) auto
next
  case (4 rooted p out dotdot)
  then show ?case by (cases p) auto
next
  case (5 rooted p out dotdot x)
  then show ?case by (cases p) auto
next
  case (6 rooted p out dotdot)
  then show ?case by (cases p) auto
next
  case (7 rooted p out dotdot)
  then have "length (dropWhile (\<lambda>c. c \<noteq> CHR ''/'') p) < length p"
    by (cases p) (auto simp: le_imp_less_Suc length_dropWhile_le)
  then show ?case by simp
qed

declare Clean_loop.simps [simp del]

definition Clean :: "string \<Rightarrow> string" where
  "Clean path =
     (if path = [] then ''.''
      else let rooted = (hd path = CHR ''/'');
               out = (if rooted then Clean_loop True (tl path) ''/'' 1
                      else Clean_loop False path [] 0)
           in if out = [] then ''.'' else out)"

text \<open>
  \<^verbatim>\<open>filepath.Dir(path)\<close>: everything up to and including the last slash, cleaned. The second
  argument of the loop is Go's index \<^verbatim>\<open>i\<close> plus one.
\<close>

fun Dir_loop :: "string \<Rightarrow> nat \<Rightarrow> nat" where
  "Dir_loop path 0 = 0"
| "Dir_loop path (Suc i) = (if path ! i \<noteq> CHR ''/'' then Dir_loop path i else Suc i)"

definition Dir :: "string \<Rightarrow> string" where
  "Dir path = Clean (take (Dir_loop path (length path)) path)"

text \<open>\<^verbatim>\<open>strings.Split(s, sep)\<close> and the join that \<^verbatim>\<open>string_agg\<close> computes.\<close>

function Split_from :: "string \<Rightarrow> string \<Rightarrow> string \<Rightarrow> string list" where
  "Split_from s sep cur =
     (if s = [] then [cur]
      else if sep \<noteq> [] \<and> take (length sep) s = sep
        then cur # Split_from (drop (length sep) s) sep []
      else Split_from (tl s) sep (cur @ [hd s]))"
  by pat_completeness auto
termination
  by (relation "measure (\<lambda>(s, sep, cur). length s)") (auto simp: neq_Nil_conv)

declare Split_from.simps [simp del]

definition Split :: "string \<Rightarrow> string \<Rightarrow> string list" where
  "Split s sep = (if sep = [] then map (\<lambda>c. [c]) s else Split_from s sep [])"

fun Join :: "string list \<Rightarrow> string \<Rightarrow> string" where
  "Join [] sep = []"
| "Join [x] sep = x"
| "Join (x # y # ys) sep = x @ sep @ Join (y # ys) sep"

subsection \<open>The uploaded file\<close>

type_synonym byte = "8 word"

text \<open>
  A \<^verbatim>\<open>multipart.File\<close>: the bytes of the upload, the read cursor, and whether reading the
  underlying file fails with an I/O error.
\<close>

record multipart_File =
  content :: "byte list"
  offset :: nat
  broken :: bool

text \<open>
  \<^verbatim>\<open>io.ReadFull(file, buf)\<close> for a buffer of \<open>n\<close> zero bytes: the buffer after the read, the
  error, and the file with its cursor advanced by the bytes read. No byte read gives
  \<^verbatim>\<open>io.EOF\<close>, fewer than \<open>n\<close> give \<^verbatim>\<open>io.ErrUnexpectedEOF\<close>.
\<close>

definition ReadFull :: "multipart_File \<Rightarrow> nat \<Rightarrow> byte list \<times> error option \<times> multipart_File" where
  "ReadFull f n =
     (if broken f then (replicate n 0, Some DriverError, f)
      else let got = take n (drop (offset f) (content f));
               f' = f\<lparr>offset := offset f + length got\<rparr>
           in if length got = n then (got, None, f')
              else if got = [] then (replicate n 0, Some EOF, f')
              else (got @ replicate (n - length got) 0, Some ErrUnexpectedEOF, f'))"

text \<open>\<^verbatim>\<open>file.Seek(0, io.SeekStart)\<close>.\<close>

definition SeekStart :: "multipart_File \<Rightarrow> multipart_File" where
  "SeekStart f = f\<lparr>offset := 0\<rparr>"

subsection \<open>The file classifier\<close>

text \<open>
  The kinds of \<^verbatim>\<open>github.com/h2non/filetype\<close> that the service tells apart. The library's
  \<^verbatim>\<open>filetype.Match\<close> is a parameter \<open>Match\<close> of the classifier: a function from the header
  bytes to a kind or an error.
\<close>

datatype kind = TypeEpub | TypePdf | TypeOther string | Unknown

definition isSupported :: "(byte list \<Rightarrow> error + kind) \<Rightarrow> multipart_File \<Rightarrow> bool \<times> multipart_File" where
  "isSupported Match f =
     (let (head, err, f1) = ReadFull f 261
      in if err = Some EOF then (False, f1)
         else if err \<noteq> None then (False, f1)
         else let f2 = SeekStart f1
              in (case Match head of
                    Inl e \<Rightarrow> (False, f2)
                  | Inr kind \<Rightarrow>
                      if kind \<noteq> TypeEpub \<and> kind \<noteq> TypePdf then (False, f2) else (True, f2)))"

text \<open>
  One instance of the parameter, for concrete runs: only the two signatures the service
  supports are known to it. A PDF starts with \<^verbatim>\<open>%PDF\<close>; an EPUB is a ZIP archive
  (\<^verbatim>\<open>PK\003\004\<close>) whose first entry, at byte 30, is \<^verbatim>\<open>mimetypeapplication/epub+zip\<close>. The
  library answers an empty buffer with an error and an unrecognised one with the unknown
  kind.
\<close>

definition Pdf :: "byte list \<Rightarrow> bool" where
  "Pdf buf = (length buf > 3 \<and> take 4 buf = [0x25, 0x50, 0x44, 0x46])"

definition Epub :: "byte list \<Rightarrow> bool" where
  "Epub buf =
     (length buf > 57 \<and> take 4 buf = [0x50, 0x4B, 0x03, 0x04]
      \<and> take 28 (drop 30 buf) =
          [0x6D, 0x69, 0x6D, 0x65, 0x74, 0x79, 0x70, 0x65, 0x61, 0x70, 0x70, 0x6C, 0x69, 0x63,
           0x61, 0x74, 0x69, 0x6F, 0x6E, 0x2F, 0x65, 0x70, 0x75, 0x62, 0x2B, 0x7A, 0x69, 0x70])"

definition Match_signatures :: "byte list \<Rightarrow> error + kind" where
  "Match_signatures buf =
     (if buf = [] then Inl ErrEmptyBuffer
      else if Epub buf then Inr TypeEpub
      else if Pdf buf then Inr TypePdf
      else Inr Unknown)"

text \<open>
  A stream carries a recognised signature when the library classifies its unread bytes as
  EPUB or PDF.
\<close>

definition recognised :: "(byte list \<Rightarrow> error + kind) \<Rightarrow> multipart_File \<Rightarrow> bool" where
  "recognised Match f =
     (Match (drop (offset f) (content f)) = Inr TypeEpub
      \<or> Match (drop (offset f) (content f)) = Inr TypePdf)"

subsection \<open>Documents and the world around the service\<close>

text \<open>
  A \<^verbatim>\<open>time.Time\<close> is a count of clock ticks; its zero value is \<open>0\<close>. \<^verbatim>\<open>Updated\<close> is a
  pointer in Go, so it may be absent.
\<close>

record Document =
  ID :: string
  DisplayName :: string
  Name :: string
  Path :: string
  Type :: string
  Description :: string
  Tags :: "string list"
  Created :: nat
  Updated :: "nat option"

text \<open>The zero value \<^verbatim>\<open>Document{}\<close>.\<close>

definition Document_zero :: Document where
  "Document_zero =
     \<lparr>ID = [], DisplayName = [], Name = [], Path = [], Type = [], Description = [],
      Tags = [], Created = 0, Updated = None\<rparr>"

text \<open>An object of the bucket, as the bucket's iterator reports it, with its bytes.\<close>

record object =
  Key :: string
  IsDir :: bool
  Data :: "byte list"

text \<open>Every call that reaches a collaborator is recorded, in order.\<close>

datatype call =
    SaveCall string
  | GetCall string
  | ListCall
  | FindByIDCall string
  | ExistsCall string
  | InsertCall string
  | UpdateCall string
  | CoverCall string string

text \<open>
  Modelled from the spec: the tables \<^verbatim>\<open>documents\<close> and \<^verbatim>\<open>tagged_resources\<close>, whose
  declarations (the migrations) are not among the sources. A row of \<^verbatim>\<open>documents\<close> has the
  columns the queries name; \<^verbatim>\<open>created\<close> is set once at creation and \<^verbatim>\<open>updated\<close> is
  nullable. The tags of a document are derived at read time from \<^verbatim>\<open>tagged_resources\<close>,
  here pairs of a tag identifier and the identifier of the tagged document. A row is
  kept as a \<^typ>\<open>Document\<close> whose \<open>Tags\<close> stay empty. No uniqueness constraint is
  modelled.
\<close>

type_synonym documents_table = "Document list"

type_synonym tagged_resources_table = "(string \<times> string) list"

text \<open>
  The world: the bucket, the database, the clock, the source of random identifiers and
  the record of calls. The bucket and the database may fail: \<open>bucket_faults\<close> and
  \<open>db_faults\<close> say, for each coming operation in turn, whether it fails (an exhausted list
  means no further failure).
\<close>

record world =
  bucket :: "object list"
  bucket_faults :: "bool list"
  documents :: documents_table
  tagged_resources :: tagged_resources_table
  db_faults :: "bool list"
  now :: nat
  entropy :: nat
  calls :: "call list"

definition next_fault :: "bool list \<Rightarrow> bool \<times> bool list" where
  "next_fault fs = (case fs of [] \<Rightarrow> (False, []) | f # fs' \<Rightarrow> (f, fs'))"

definition record_call :: "call \<Rightarrow> world \<Rightarrow> world" where
  "record_call c w = w\<lparr>calls := calls w @ [c]\<rparr>"

text \<open>\<^verbatim>\<open>time.Now()\<close>: the clock is read and moves on.\<close>

definition time_Now :: "world \<Rightarrow> nat \<times> world" where
  "time_Now w = (now w, w\<lparr>now := Suc (now w)\<rparr>)"

text \<open>
  \<^verbatim>\<open>uuid.New().String()\<close>: sixteen bytes taken from the source of randomness, printed as 32
  hexadecimal digits in groups of 8, 4, 4, 4 and 12. The source of randomness is a
  counter here.
\<close>

definition hex_digit :: "nat \<Rightarrow> char" where
  "hex_digit d = ''0123456789abcdef'' ! (d mod 16)"

fun hex_digits :: "nat \<Rightarrow> nat \<Rightarrow> string" where
  "hex_digits 0 n = []"
| "hex_digits (Suc k) n = hex_digits k (n div 16) @ [hex_digit n]"

definition uuid_String :: "nat \<Rightarrow> string" where
  "uuid_String n =
     (let ds = hex_digits 32 n
      in take 8 ds @ ''-'' @ take 4 (drop 8 ds) @ ''-'' @ take 4 (drop 12 ds) @ ''-''
         @ take 4 (drop 16 ds) @ ''-'' @ drop 20 ds)"

definition uuid_New :: "world \<Rightarrow> string \<times> world" where
  "uuid_New w = (uuid_String (entropy w), w\<lparr>entropy := Suc (entropy w)\<rparr>)"

subsection \<open>The bucket storage (\<^verbatim>\<open>internal/common/storage.go\<close>)\<close>

definition put_object :: "string \<Rightarrow> byte list \<Rightarrow> object list \<Rightarrow> object list" where
  "put_object key bytes objs =
     (if key \<in> set (map Key objs)
        then map (\<lambda>obj. if Key obj = key then obj\<lparr>IsDir := False, Data := bytes\<rparr> else obj) objs
      else objs @ [\<lparr>Key = key, IsDir = False, Data = bytes\<rparr>])"

text \<open>
  \<^verbatim>\<open>BucketStorage.Save\<close>: opening the writer may fail, and so may the copy (a failure of the
  bucket, or of reading the file). The copy reads the file from its cursor to its end.
\<close>

definition Save :: "string \<Rightarrow> multipart_File \<Rightarrow> world \<Rightarrow> (error + string) \<times> multipart_File \<times> world" where
  "Save fileName f w =
     (let w0 = record_call (SaveCall fileName) w;
          (fault1, fs1) = next_fault (bucket_faults w0)
      in if fault1
           then (Inl (Wrap DriverError ''unable to creat upload writer''), f,
                 w0\<lparr>bucket_faults := fs1\<rparr>)
         else let (fault2, fs2) = next_fault fs1
              in if fault2 \<or> broken f
                   then (Inl (Wrap DriverError ''failed to upload file''), f,
                         w0\<lparr>bucket_faults := fs2\<rparr>)
                 else (Inr fileName,
                       f\<lparr>offset := max (offset f) (length (content f))\<rparr>,
                       w0\<lparr>bucket_faults := fs2,
                          bucket := put_object fileName (drop (offset f) (content f)) (bucket w0)\<rparr>))"

text \<open>
  \<^verbatim>\<open>BucketStorage.Get\<close>: a signed URL, valid for 15 hours, for the key. The signature is
  the bucket driver's business; the URL is written as the key behind a fixed prefix.
\<close>

definition SignedURL :: "string \<Rightarrow> string" where
  "SignedURL key = ''https://bucket/'' @ key @ ''?expiry=15h''"

definition Get :: "string \<Rightarrow> world \<Rightarrow> (error + string) \<times> world" where
  "Get path w =
     (let w0 = record_call (GetCall path) w;
          (fault, fs) = next_fault (bucket_faults w0)
      in if fault then (Inl DriverError, w0\<lparr>bucket_faults := fs\<rparr>)
         else (Inr (SignedURL path), w0\<lparr>bucket_faults := fs\<rparr>))"

text \<open>
  \<^verbatim>\<open>BucketStorage.List\<close>: the keys sent on the channel, in order. Each call of the
  iterator may fail; a failure ends the listing like the end of the bucket does.
  Directories are not sent.
\<close>

fun List_loop :: "object list \<Rightarrow> bool list \<Rightarrow> string list \<times> bool list" where
  "List_loop [] fs = ([], snd (next_fault fs))"
| "List_loop (obj # objs) fs =
     (let (fault, fs') = next_fault fs
      in if fault then ([], fs')
         else if IsDir obj then List_loop objs fs'
         else let (keys, fs'') = List_loop objs fs' in (Key obj # keys, fs''))"

definition List :: "world \<Rightarrow> string list \<times> world" where
  "List w =
     (let w0 = record_call ListCall w;
          (keys, fs) = List_loop (bucket w0) (bucket_faults w0)
      in (keys, w0\<lparr>bucket_faults := fs\<rparr>))"

subsection \<open>The repository (\<^verbatim>\<open>internal/database/postgres.go\<close>)\<close>

text \<open>
  The aggregated column of the lookup query,
  \<^verbatim>\<open>COALESCE(string_agg(tagged_resources.id, ','), '')\<close>, for the document \<open>ident\<close>.
\<close>

definition tag_list :: "tagged_resources_table \<Rightarrow> string \<Rightarrow> string" where
  "tag_list tagged ident = Join (map fst (filter (\<lambda>t. snd t = ident) tagged)) '',''"

text \<open>The row that \<^verbatim>\<open>SELECT ... WHERE documents.id = $1\<close> reads with \<^verbatim>\<open>QueryRow\<close>: the first one.\<close>

definition row_by_id :: "string \<Rightarrow> documents_table \<Rightarrow> Document option" where
  "row_by_id ident rows = find (\<lambda>r. ID r = ident) rows"

text \<open>
  \<^verbatim>\<open>PostgresDatabase.FindByID\<close>. When the query fails or has no row, \<^verbatim>\<open>row.Scan\<close> returns an
  error; the error is logged, nothing is scanned, and the function goes on with the
  document it allocated. The result is the pair \<^verbatim>\<open>(*Document, error)\<close>.
\<close>

definition repo_FindByID :: "string \<Rightarrow> world \<Rightarrow> Document option \<times> error option \<times> world" where
  "repo_FindByID ident w =
     (let w0 = record_call (FindByIDCall ident) w;
          (fault, fs) = next_fault (db_faults w0);
          w1 = w0\<lparr>db_faults := fs\<rparr>;
          doc = Document_zero\<lparr>Tags := []\<rparr>;
          row = (if fault then None else row_by_id ident (documents w1));
          (doc, tagList) =
            (case row of
               None \<Rightarrow> (doc, [])
             | Some r \<Rightarrow> (r\<lparr>Tags := Tags doc\<rparr>, tag_list (tagged_resources w1) (ID r)));
          doc = (if tagList \<noteq> [] then doc\<lparr>Tags := Tags doc @ Split tagList '',''\<rparr> else doc)
      in (Some doc, None, w1))"

text \<open>
  \<^verbatim>\<open>PostgresDatabase.UpdateDocument\<close>: the description, the display name and the type of
  every row with the document's identifier are overwritten, and \<^verbatim>\<open>updated\<close> is set to the
  current time.
\<close>

definition UpdateDocument :: "Document \<Rightarrow> world \<Rightarrow> (error + Document) \<times> world" where
  "UpdateDocument doc w =
     (let w0 = record_call (UpdateCall (ID doc)) w;
          (t, w1) = time_Now w0;
          (fault, fs) = next_fault (db_faults w1);
          w2 = w1\<lparr>db_faults := fs\<rparr>
      in if fault then (Inl (New ''unable to update doc''), w2)
         else (Inr doc,
               w2\<lparr>documents :=
                    map (\<lambda>r. if ID r = ID doc
                              then r\<lparr>Description := Description doc,
                                     DisplayName := DisplayName doc,
                                     Type := Type doc,
                                     Updated := Some t\<rparr>
                              else r)
                        (documents w2)\<rparr>))"

text \<open>
  \<^verbatim>\<open>PostgresDatabase.existsByPath\<close>: a failed count is logged and leaves \<^verbatim>\<open>count\<close> at zero;
  the error returned is always \<^verbatim>\<open>nil\<close>.
\<close>

definition existsByPath :: "string \<Rightarrow> world \<Rightarrow> bool \<times> error option \<times> world" where
  "existsByPath path w =
     (let w0 = record_call (ExistsCall path) w;
          (fault, fs) = next_fault (db_faults w0);
          w1 = w0\<lparr>db_faults := fs\<rparr>;
          count = (if fault then 0 else length (filter (\<lambda>r. Path r = path) (documents w1)))
      in (count > 0, None, w1))"

text \<open>
  \<^verbatim>\<open>PostgresDatabase.Insert\<close>: the statement names the columns \<^verbatim>\<open>id\<close>, \<^verbatim>\<open>description\<close>,
  \<^verbatim>\<open>display_name\<close>, \<^verbatim>\<open>name\<close>, \<^verbatim>\<open>type\<close> and \<^verbatim>\<open>path\<close>; \<^verbatim>\<open>created\<close> and \<^verbatim>\<open>updated\<close> are left to
  the table (the time of the insertion, and null).
\<close>

definition Insert :: "Document \<Rightarrow> world \<Rightarrow> error option \<times> world" where
  "Insert doc w =
     (let w0 = record_call (InsertCall (ID doc)) w;
          (fault, fs) = next_fault (db_faults w0);
          w1 = w0\<lparr>db_faults := fs\<rparr>
      in if fault then (Some (New ''unable to insert doc metadata''), w1)
         else (None,
               w1\<lparr>documents := documents w1 @
                    [\<lparr>ID = ID doc, DisplayName = DisplayName doc, Name = Name doc,
                      Path = Path doc, Type = Type doc, Description = Description doc,
                      Tags = [], Created = now w1, Updated = None\<rparr>]\<rparr>))"

text \<open>
  The body of the loop of \<^verbatim>\<open>PostgresDatabase.UpsertStream\<close>, for one document received from
  the channel: skipped when its path exists, else inserted; a failed insertion ends the
  loop with an error.
\<close>

datatype upserted = Exists | Inserted | Failed error

definition UpsertStream_body :: "Document \<Rightarrow> world \<Rightarrow> upserted \<times> world" where
  "UpsertStream_body doc w =
     (let (exists, _, w1) = existsByPath (Path doc) w
      in if exists then (Exists, w1)
         else let (err, w2) = Insert doc w1
              in if err \<noteq> None then (Failed (New ''unable to upsert document''), w2)
                 else (Inserted, w2))"


subsection \<open>The document service (\<^verbatim>\<open>internal/documents\<close>)\<close>

text \<open>A call either returns or panics.\<close>

datatype 'a go = Returned 'a | Panicked

text \<open>
  \<^verbatim>\<open>documentService.FindByID\<close>. Reading \<^verbatim>\<open>entity.Path\<close> through a nil pointer would panic.
\<close>

definition FindByID :: "string \<Rightarrow> world \<Rightarrow> (error + Document) go \<times> world" where
  "FindByID ident w =
     (let (entity, err, w1) = repo_FindByID ident w
      in case err of
           Some e \<Rightarrow> (Returned (Inl (Wrap e ''unable to fetch from repository'')), w1)
         | None \<Rightarrow>
             (case entity of
                None \<Rightarrow> (Panicked, w1)
              | Some doc \<Rightarrow>
                  (let (r, w2) = Get (Path doc) w1
                   in case r of
                        Inl e \<Rightarrow> (Returned (Inl (Wrap e ''unable to get path from storage'')), w2)
                      | Inr filePath \<Rightarrow> (Returned (Inr (doc\<lparr>Path := filePath\<rparr>)), w2))))"

text \<open>
  \<^verbatim>\<open>documentService.Add\<close>. The draft is behind a pointer, so the caller sees what \<^verbatim>\<open>Add\<close>
  wrote into it: the result is the error, the draft and the file as \<^verbatim>\<open>Add\<close> left them, and
  the world. The cover request runs in a goroutine of its own; only its start is
  recorded.
\<close>

definition Add ::
  "(byte list \<Rightarrow> error + kind) \<Rightarrow> multipart_File \<Rightarrow> Document \<Rightarrow> world
     \<Rightarrow> error option \<times> Document \<times> multipart_File \<times> world" where
  "Add Match f doc w =
     (let (supported, f1) = isSupported Match f
      in if \<not> supported then (Some ErrInvalidFileType, doc, f1, w)
         else let (r, f2, w1) = Save (Name doc) f1 w
              in case r of
                   Inl e \<Rightarrow> (Some (Wrap e ''failed to write to storage''), doc, f2, w1)
                 | Inr path \<Rightarrow>
                     (let (u, w2) = uuid_New w1;
                          doc1 = doc\<lparr>ID := u, Path := path\<rparr>;
                          (t, w3) = time_Now w2;
                          doc2 = doc1\<lparr>Created := t, Updated := Some t\<rparr>;
                          (err, w4) = Insert doc2 w3
                      in case err of
                           Some e \<Rightarrow> (Some (Wrap e ''failed to store data in repo''), doc2, f2, w4)
                         | None \<Rightarrow>
                             (None, doc2, f2, record_call (CoverCall (ID doc2) (Path doc2)) w4)))"

text \<open>
  \<^verbatim>\<open>documentService.UpdateFields\<close>. On an error the document returned is the zero value, so
  the result is a sum.
\<close>

definition UpdateFields :: "string \<Rightarrow> Document \<Rightarrow> world \<Rightarrow> (error + Document) \<times> world" where
  "UpdateFields ident updatedDoc w =
     (let (found, err, w1) = repo_FindByID ident w
      in if err \<noteq> None then (Inl (New ''unable to find entity''), w1)
         else case found of
                None \<Rightarrow> (Inl (New ''entity does not exist''), w1)
              | Some entity \<Rightarrow>
                  (let entity1 = (if Description updatedDoc \<noteq> []
                                  then entity\<lparr>Description := Description updatedDoc\<rparr>
                                  else entity);
                       entity2 = (if DisplayName updatedDoc \<noteq> []
                                  then entity1\<lparr>DisplayName := DisplayName updatedDoc\<rparr>
                                  else entity1)
                   in if Type updatedDoc \<noteq> []
                        then (if Type updatedDoc = ''book'' \<or> Type updatedDoc = ''paper''
                                then UpdateDocument (entity2\<lparr>Type := Type updatedDoc\<rparr>) w1
                              else (Inl (New ''unsupported type''), w1))
                      else UpdateDocument entity2 w1))"

text \<open>
  \<^verbatim>\<open>documentService.Scan\<close>. The name derived from a key: \<^verbatim>\<open>name[0]\<close> on an empty string is
  an index out of range, a run-time panic (\<open>None\<close>).
\<close>

definition Scan_name :: "string \<Rightarrow> string \<Rightarrow> string option" where
  "Scan_name path ext =
     (let name = ReplaceAll path ext [];
          name = ReplaceAll name (Dir path) []
      in if name = [] then None
         else if name ! 0 = CHR ''/'' then Some (drop 1 name)
         else Some name)"

text \<open>The body of the goroutine's loop, for one key received from the listing.\<close>

datatype produced = Skip | Send Document | Panic

definition Scan_body :: "string \<Rightarrow> world \<Rightarrow> produced \<times> world" where
  "Scan_body path w =
     (let ext = Ext path
      in if ext \<noteq> ''.pdf'' then (Skip, w)
         else case Scan_name path ext of
                None \<Rightarrow> (Panic, w)
              | Some name \<Rightarrow>
                  (let (u, w1) = uuid_New w;
                       (t, w2) = time_Now w1
                   in (Send \<lparr>ID = u, DisplayName = name, Name = name, Path = path,
                             Type = ''book'', Description = [], Tags = [], Created = t,
                             Updated = None\<rparr>, w2)))"

text \<open>
  The goroutine and \<^verbatim>\<open>UpsertStream\<close> meet on an unbuffered channel: each document is
  handed over before the next key is looked at. The pipeline is run here as that
  alternation, one key at a time; \<open>count\<close> is the counter of \<^verbatim>\<open>UpsertStream\<close>. A panic
  of the goroutine ends the process.
\<close>

fun Scan_pipeline :: "string list \<Rightarrow> nat \<Rightarrow> world \<Rightarrow> error option go \<times> nat \<times> world" where
  "Scan_pipeline [] count w = (Returned None, count, w)"
| "Scan_pipeline (path # paths) count w =
     (case Scan_body path w of
        (Skip, w1) \<Rightarrow> Scan_pipeline paths count w1
      | (Panic, w1) \<Rightarrow> (Panicked, count, w1)
      | (Send doc, w1) \<Rightarrow>
          (case UpsertStream_body doc w1 of
             (Exists, w2) \<Rightarrow> Scan_pipeline paths count w2
           | (Failed e, w2) \<Rightarrow> (Returned (Some e), count, w2)
           | (Inserted, w2) \<Rightarrow> Scan_pipeline paths (Suc count) w2))"

text \<open>The result of \<^verbatim>\<open>Scan\<close>, the number of documents it added, and the world.\<close>

definition Scan :: "world \<Rightarrow> error option go \<times> nat \<times> world" where
  "Scan w = (let (fileNameStream, w1) = List w in Scan_pipeline fileNameStream 0 w1)"

subsection \<open>The book service (\<^verbatim>\<open>internal/books/service.go\<close>)\<close>

definition books_Add ::
  "(byte list \<Rightarrow> error + kind) \<Rightarrow> multipart_File \<Rightarrow> Document \<Rightarrow> world
     \<Rightarrow> error option \<times> Document \<times> multipart_File \<times> world" where
  "books_Add Match f book w =
     (let book1 = book\<lparr>Type := ''book''\<rparr>;
          (err, book2, f1, w1) = Add Match f book1 w
      in case err of
           Some e \<Rightarrow> (Some (Wrap e ''failed to store data in repo''), book2, f1, w1)
         | None \<Rightarrow> (None, book2, f1, w1))"

section \<open>Properties\<close>

subsection \<open>The file classifier\<close>

lemma ReadFull_head:
  "\<not> broken f \<Longrightarrow> n \<le> length (content f) - offset f \<Longrightarrow>
   ReadFull f n = (take n (drop (offset f) (content f)), None, f\<lparr>offset := offset f + n\<rparr>)"
  by (auto simp: ReadFull_def Let_def)

lemma isSupported_full_header:
  assumes "\<not> broken f" and "261 \<le> length (content f) - offset f"
  shows "isSupported Match f =
     (Match (take 261 (drop (offset f) (content f))) = Inr TypeEpub
        \<or> Match (take 261 (drop (offset f) (content f))) = Inr TypePdf,
      f\<lparr>offset := 0\<rparr>)"
  using assms
  by (auto simp: isSupported_def ReadFull_head SeekStart_def Let_def split: sum.splits)

lemma isSupported_short_header:
  assumes "broken f \<or> length (content f) - offset f < 261"
  shows "\<not> fst (isSupported Match f)"
  using assms by (auto simp: isSupported_def ReadFull_def Let_def)

text \<open>
  Claim C2, as stated: every stream that begins with a recognised PDF or EPUB signature
  is accepted. It fails for a stream shorter than the 261-byte header: the nine bytes
  \<^verbatim>\<open>%PDF-1.4\<close> and a line feed carry the PDF signature and are rejected, because
  \<^verbatim>\<open>io.ReadFull\<close> cannot fill the header.
\<close>

theorem isSupported_short_pdf_counterexample:
  "recognised Match_signatures
     \<lparr>content = [0x25, 0x50, 0x44, 0x46, 0x2D, 0x31, 0x2E, 0x34, 0x0A], offset = 0,
      broken = False\<rparr>
   \<and> \<not> fst (isSupported Match_signatures
     \<lparr>content = [0x25, 0x50, 0x44, 0x46, 0x2D, 0x31, 0x2E, 0x34, 0x0A], offset = 0,
      broken = False\<rparr>)"
  by code_simp

text \<open>
  Claim C2, amended: the classifier accepts a stream exactly when 261 bytes can be read
  from its cursor without an I/O error and the library classifies these 261 bytes as EPUB
  or PDF; every other stream is rejected.
\<close>

theorem isSupported_accepts_iff:
  "fst (isSupported Match f) =
     (\<not> broken f \<and> 261 \<le> length (content f) - offset f
      \<and> (Match (take 261 (drop (offset f) (content f))) = Inr TypeEpub
         \<or> Match (take 261 (drop (offset f) (content f))) = Inr TypePdf))"
proof (cases "\<not> broken f \<and> 261 \<le> length (content f) - offset f")
  case True
  then show ?thesis
    by (simp add: isSupported_full_header)
next
  case False
  then have "broken f \<or> length (content f) - offset f < 261"
    by auto
  from isSupported_short_header [OF this, of Match] False show ?thesis
    by auto
qed

text \<open>A PDF header followed by 257 further bytes is accepted.\<close>

theorem isSupported_accepts_iff_witness:
  "fst (isSupported Match_signatures
     \<lparr>content = [0x25, 0x50, 0x44, 0x46] @ replicate 257 0, offset = 0, broken = False\<rparr>)"
proof -
  let ?f = "\<lparr>content = [0x25, 0x50, 0x44, 0x46] @ replicate 257 (0 :: byte), offset = 0,
             broken = False\<rparr>"
  have sound: "\<not> broken ?f" and long: "261 \<le> length (content ?f) - offset ?f"
    by simp_all
  have pdf: "Match_signatures (take 261 (drop (offset ?f) (content ?f))) = Inr TypePdf"
    by code_simp
  show ?thesis
    unfolding isSupported_accepts_iff using sound long pdf by blast
qed

text \<open>
  Claim C4: the read position after classification equals the position before, whether
  the stream is accepted or rejected. The code returns before \<^verbatim>\<open>file.Seek\<close> when the header
  cannot be read in full: for the nine-byte stream, read from position 0, the cursor is
  left at 9.
\<close>

theorem isSupported_short_stream_cursor:
  "offset (snd (isSupported Match_signatures
     \<lparr>content = [0x25, 0x50, 0x44, 0x46, 0x2D, 0x31, 0x2E, 0x34, 0x0A], offset = 0,
      broken = False\<rparr>)) = 9"
  by code_simp

text \<open>When the header is read in full, the cursor is put back to the start.\<close>

lemma isSupported_rewinds:
  "\<not> broken f \<Longrightarrow> 261 \<le> length (content f) - offset f \<Longrightarrow>
   offset (snd (isSupported Match f)) = 0"
  by (simp add: isSupported_full_header)

subsection \<open>Add\<close>

text \<open>
  Claim C3: when the classifier rejects the stream, \<^verbatim>\<open>Add\<close> fails with
  \<^verbatim>\<open>ErrInvalidFileType\<close> and has no side effect: the draft and the world are returned as
  they were given, so nothing was saved to the bucket, no row was inserted and no call to
  a collaborator was recorded.
\<close>

theorem Add_rejected:
  "\<not> fst (isSupported Match f) \<Longrightarrow>
   Add Match f doc w = (Some ErrInvalidFileType, doc, snd (isSupported Match f), w)"
  by (cases "isSupported Match f") (simp add: Add_def)

text \<open>A GIF header offered as \<^verbatim>\<open>notes.pdf\<close>, on an empty library.\<close>

theorem Add_rejected_witness:
  "\<not> fst (isSupported Match_signatures
        \<lparr>content = [0x47, 0x49, 0x46], offset = 0, broken = False\<rparr>)
   \<and> Add Match_signatures \<lparr>content = [0x47, 0x49, 0x46], offset = 0, broken = False\<rparr>
         (Document_zero\<lparr>DisplayName := ''Notes'', Name := ''notes.pdf''\<rparr>)
         \<lparr>bucket = [], bucket_faults = [], documents = [], tagged_resources = [],
          db_faults = [], now = 0, entropy = 0, calls = []\<rparr>
       = (Some ErrInvalidFileType,
          Document_zero\<lparr>DisplayName := ''Notes'', Name := ''notes.pdf''\<rparr>,
          \<lparr>content = [0x47, 0x49, 0x46], offset = 3, broken = False\<rparr>,
          \<lparr>bucket = [], bucket_faults = [], documents = [], tagged_resources = [],
           db_faults = [], now = 0, entropy = 0, calls = []\<rparr>)"
proof -
  have rejected: "\<not> fst (isSupported Match_signatures
      \<lparr>content = [0x47, 0x49, 0x46], offset = 0, broken = False\<rparr>)"
    by code_simp
  have cursor: "snd (isSupported Match_signatures
      \<lparr>content = [0x47, 0x49, 0x46], offset = 0, broken = False\<rparr>)
      = \<lparr>content = [0x47, 0x49, 0x46], offset = 3, broken = False\<rparr>"
    by code_simp
  show ?thesis
    using rejected Add_rejected [OF rejected] by (simp add: cursor)
qed

lemma uuid_String_not_empty: "uuid_String n \<noteq> []"
  by (simp add: uuid_String_def Let_def)

lemma Add_returns_nil:
  assumes "fst (Add Match f doc w) = None"
  shows "ID (fst (snd (Add Match f doc w))) \<noteq> []
    \<and> Updated (fst (snd (Add Match f doc w))) = Some (Created (fst (snd (Add Match f doc w))))
    \<and> Type (fst (snd (Add Match f doc w))) = Type doc"
  using assms
  by (auto simp: Add_def Let_def case_prod_beta uuid_New_def time_Now_def uuid_String_not_empty
                 ErrInvalidFileType_def
           split: if_splits sum.splits option.splits)

lemma books_Add_fst:
  "fst (books_Add Match f book w) = None
     \<longleftrightarrow> fst (Add Match f (book\<lparr>Type := ''book''\<rparr>) w) = None"
  by (simp add: books_Add_def Let_def case_prod_beta split: option.splits)

lemma books_Add_doc:
  "fst (snd (books_Add Match f book w)) = fst (snd (Add Match f (book\<lparr>Type := ''book''\<rparr>) w))"
  by (simp add: books_Add_def Let_def case_prod_beta split: option.splits)

text \<open>
  \<^verbatim>\<open>Add\<close> does return \<^verbatim>\<open>nil\<close>: an accepted, readable file and collaborators that do not
  fail are enough.
\<close>

lemma Add_succeeds:
  assumes "fst (isSupported Match f)" and "\<not> broken f"
    and "bucket_faults w = []" and "db_faults w = []"
  shows "fst (Add Match f doc w) = None"
proof -
  have "broken (snd (isSupported Match f)) = broken f"
    by (simp add: isSupported_def ReadFull_def SeekStart_def Let_def case_prod_beta
          split: sum.splits)
  with assms show ?thesis
    by (simp add: Add_def Save_def Insert_def record_call_def next_fault_def uuid_New_def
          time_Now_def Let_def case_prod_beta)
qed

text \<open>
  Claim C9: after a successful \<^verbatim>\<open>Add\<close> the document has a non-empty identifier, its
  updated time is its created time, and its type is the type of the draft; after a
  successful \<^verbatim>\<open>Add\<close> of the book service the type is \<^verbatim>\<open>book\<close>, whatever the draft said.
\<close>

theorem Add_success:
  "(fst (Add Match f doc w) = None \<longrightarrow>
      ID (fst (snd (Add Match f doc w))) \<noteq> []
      \<and> Updated (fst (snd (Add Match f doc w))) = Some (Created (fst (snd (Add Match f doc w))))
      \<and> Type (fst (snd (Add Match f doc w))) = Type doc)
   \<and> (fst (books_Add Match f doc w) = None \<longrightarrow>
      ID (fst (snd (books_Add Match f doc w))) \<noteq> []
      \<and> Updated (fst (snd (books_Add Match f doc w)))
          = Some (Created (fst (snd (books_Add Match f doc w))))
      \<and> Type (fst (snd (books_Add Match f doc w))) = ''book'')"
  using Add_returns_nil [of Match f doc w]
    Add_returns_nil [of Match f "doc\<lparr>Type := ''book''\<rparr>" w]
  by (simp add: books_Add_fst books_Add_doc)

text \<open>
  A PDF uploaded as \<^verbatim>\<open>notes.pdf\<close> with a draft of type \<^verbatim>\<open>paper\<close>: both services succeed;
  the document service keeps \<^verbatim>\<open>paper\<close>, the book service stores \<^verbatim>\<open>book\<close>.
\<close>

theorem Add_success_witness:
  "fst (Add Match_signatures
        \<lparr>content = [0x25, 0x50, 0x44, 0x46] @ replicate 257 0, offset = 0, broken = False\<rparr>
        (Document_zero\<lparr>DisplayName := ''Notes'', Name := ''notes.pdf'', Type := ''paper''\<rparr>)
        \<lparr>bucket = [], bucket_faults = [], documents = [], tagged_resources = [],
         db_faults = [], now = 5, entropy = 0, calls = []\<rparr>) = None
   \<and> fst (books_Add Match_signatures
        \<lparr>content = [0x25, 0x50, 0x44, 0x46] @ replicate 257 0, offset = 0, broken = False\<rparr>
        (Document_zero\<lparr>DisplayName := ''Notes'', Name := ''notes.pdf'', Type := ''paper''\<rparr>)
        \<lparr>bucket = [], bucket_faults = [], documents = [], tagged_resources = [],
         db_faults = [], now = 5, entropy = 0, calls = []\<rparr>) = None
   \<and> Type (fst (snd (Add Match_signatures
        \<lparr>content = [0x25, 0x50, 0x44, 0x46] @ replicate 257 0, offset = 0, broken = False\<rparr>
        (Document_zero\<lparr>DisplayName := ''Notes'', Name := ''notes.pdf'', Type := ''paper''\<rparr>)
        \<lparr>bucket = [], bucket_faults = [], documents = [], tagged_resources = [],
         db_faults = [], now = 5, entropy = 0, calls = []\<rparr>))) = ''paper''
   \<and> Type (fst (snd (books_Add Match_signatures
        \<lparr>content = [0x25, 0x50, 0x44, 0x46] @ replicate 257 0, offset = 0, broken = False\<rparr>
        (Document_zero\<lparr>DisplayName := ''Notes'', Name := ''notes.pdf'', Type := ''paper''\<rparr>)
        \<lparr>bucket = [], bucket_faults = [], documents = [], tagged_resources = [],
         db_faults = [], now = 5, entropy = 0, calls = []\<rparr>))) = ''book''"
proof -
  let ?f = "\<lparr>content = [0x25, 0x50, 0x44, 0x46] @ replicate 257 0, offset = 0,
             broken = False\<rparr>"
  let ?d = "Document_zero\<lparr>DisplayName := ''Notes'', Name := ''notes.pdf'', Type := ''paper''\<rparr>"
  let ?w = "\<lparr>bucket = [], bucket_faults = [], documents = [], tagged_resources = [],
         db_faults = [], now = 5, entropy = 0, calls = []\<rparr>"
  have accepted: "fst (isSupported Match_signatures ?f)"
    by code_simp
  have a: "fst (Add Match_signatures ?f ?d ?w) = None"
    using accepted by (intro Add_succeeds) simp_all
  have b: "fst (books_Add Match_signatures ?f ?d ?w) = None"
    unfolding books_Add_fst using accepted by (intro Add_succeeds) simp_all
  show ?thesis
    using a b Add_success [of Match_signatures ?f ?d ?w] by (simp add: Document_zero_def)
qed

subsection \<open>Lookup and update\<close>

lemma row_by_id_ID: "row_by_id ident rows = Some r \<Longrightarrow> ID r = ident"
  by (auto simp: row_by_id_def find_Some_iff)

lemma row_by_id_map:
  assumes "\<And>r. ID (g r) = ID r"
  shows "row_by_id ident (map g rows) = map_option g (row_by_id ident rows)"
  unfolding row_by_id_def by (induction rows) (simp_all add: assms)

text \<open>
  The repository's lookup never reports an error and never returns a nil pointer: the
  entity is either the zero document (in the three fields below) or a copy of the row.
\<close>

lemma repo_FindByID_entity:
  "\<exists>doc. repo_FindByID ident w =
       (Some doc, None,
        w\<lparr>calls := calls w @ [FindByIDCall ident], db_faults := snd (next_fault (db_faults w))\<rparr>)
     \<and> (ID doc = [] \<and> DisplayName doc = [] \<and> Type doc = []
        \<or> (\<exists>r. row_by_id ident (documents w) = Some r \<and> ID doc = ident
              \<and> DisplayName doc = DisplayName r \<and> Type doc = Type r))"
proof (cases "fst (next_fault (db_faults w))")
  case True
  then show ?thesis
    by (simp add: repo_FindByID_def record_call_def Let_def case_prod_beta Document_zero_def)
next
  case False
  show ?thesis
  proof (cases "row_by_id ident (documents w)")
    case None
    with False show ?thesis
      by (simp add: repo_FindByID_def record_call_def Let_def case_prod_beta Document_zero_def)
  next
    case (Some r)
    with False row_by_id_ID [OF Some] show ?thesis
      by (simp add: repo_FindByID_def record_call_def Let_def case_prod_beta Document_zero_def)
  qed
qed

text \<open>
  Claim C1: a lookup by an identifier that matches no row fails with a not-found error
  and returns no document. In the code the repository logs the failed \<^verbatim>\<open>row.Scan\<close> and
  returns the document it allocated with a \<^verbatim>\<open>nil\<close> error; the service then asks the bucket
  for a signed URL of the empty path and returns that document. Here the table holds the
  identifier \<^verbatim>\<open>7\<close> only and the lookup is for \<^verbatim>\<open>42\<close>.
\<close>

theorem FindByID_unknown_identifier:
  "fst (repo_FindByID ''42''
      \<lparr>bucket = [], bucket_faults = [],
       documents = [Document_zero\<lparr>ID := ''7'', DisplayName := ''Notes'', Path := ''notes.pdf''\<rparr>],
       tagged_resources = [], db_faults = [], now = 0, entropy = 0, calls = []\<rparr>)
     = Some Document_zero
   \<and> fst (snd (repo_FindByID ''42''
      \<lparr>bucket = [], bucket_faults = [],
       documents = [Document_zero\<lparr>ID := ''7'', DisplayName := ''Notes'', Path := ''notes.pdf''\<rparr>],
       tagged_resources = [], db_faults = [], now = 0, entropy = 0, calls = []\<rparr>))
     = None
   \<and> fst (FindByID ''42''
      \<lparr>bucket = [], bucket_faults = [],
       documents = [Document_zero\<lparr>ID := ''7'', DisplayName := ''Notes'', Path := ''notes.pdf''\<rparr>],
       tagged_resources = [], db_faults = [], now = 0, entropy = 0, calls = []\<rparr>)
     = Returned (Inr (Document_zero\<lparr>Path := ''https://bucket/?expiry=15h''\<rparr>))"
  by code_simp

text \<open>
  Claim C7: an update whose type is neither empty nor \<^verbatim>\<open>book\<close> nor \<^verbatim>\<open>paper\<close> fails with
  the error \<^verbatim>\<open>unsupported type\<close>; the rows are as before, and the only call made to the
  repository is the lookup.
\<close>

theorem UpdateFields_unsupported_type:
  assumes "Type updatedDoc \<noteq> []" and "Type updatedDoc \<noteq> ''book''"
    and "Type updatedDoc \<noteq> ''paper''"
  shows "fst (UpdateFields ident updatedDoc w) = Inl (New ''unsupported type'')
   \<and> documents (snd (UpdateFields ident updatedDoc w)) = documents w
   \<and> calls (snd (UpdateFields ident updatedDoc w)) = calls w @ [FindByIDCall ident]"
proof -
  obtain doc where "repo_FindByID ident w =
     (Some doc, None,
      w\<lparr>calls := calls w @ [FindByIDCall ident], db_faults := snd (next_fault (db_faults w))\<rparr>)"
    using repo_FindByID_entity by blast
  with assms show ?thesis
    by (simp add: UpdateFields_def Let_def)
qed

text \<open>The type \<^verbatim>\<open>comic\<close> for the stored document \<^verbatim>\<open>7\<close>.\<close>

theorem UpdateFields_unsupported_type_witness:
  "Type (Document_zero\<lparr>Type := ''comic''\<rparr>) \<noteq> []
   \<and> Type (Document_zero\<lparr>Type := ''comic''\<rparr>) \<noteq> ''book''
   \<and> Type (Document_zero\<lparr>Type := ''comic''\<rparr>) \<noteq> ''paper''
   \<and> fst (UpdateFields ''7'' (Document_zero\<lparr>Type := ''comic''\<rparr>)
      \<lparr>bucket = [], bucket_faults = [],
       documents = [Document_zero\<lparr>ID := ''7'', DisplayName := ''Notes'', Type := ''book''\<rparr>],
       tagged_resources = [], db_faults = [], now = 0, entropy = 0, calls = []\<rparr>)
     = Inl (New ''unsupported type'')
   \<and> documents (snd (UpdateFields ''7'' (Document_zero\<lparr>Type := ''comic''\<rparr>)
      \<lparr>bucket = [], bucket_faults = [],
       documents = [Document_zero\<lparr>ID := ''7'', DisplayName := ''Notes'', Type := ''book''\<rparr>],
       tagged_resources = [], db_faults = [], now = 0, entropy = 0, calls = []\<rparr>))
     = [Document_zero\<lparr>ID := ''7'', DisplayName := ''Notes'', Type := ''book''\<rparr>]
   \<and> calls (snd (UpdateFields ''7'' (Document_zero\<lparr>Type := ''comic''\<rparr>)
      \<lparr>bucket = [], bucket_faults = [],
       documents = [Document_zero\<lparr>ID := ''7'', DisplayName := ''Notes'', Type := ''book''\<rparr>],
       tagged_resources = [], db_faults = [], now = 0, entropy = 0, calls = []\<rparr>))
     = [FindByIDCall ''7'']"
  using UpdateFields_unsupported_type [of "Document_zero\<lparr>Type := ''comic''\<rparr>" "''7''"
      "\<lparr>bucket = [], bucket_faults = [],
       documents = [Document_zero\<lparr>ID := ''7'', DisplayName := ''Notes'', Type := ''book''\<rparr>],
       tagged_resources = [], db_faults = [], now = 0, entropy = 0, calls = []\<rparr>"]
  by simp

lemma UpdateDocument_documents:
  "documents (snd (UpdateDocument doc w)) =
     (if fst (next_fault (db_faults w)) then documents w
      else map (\<lambda>r. if ID r = ID doc
                     then r\<lparr>Description := Description doc, DisplayName := DisplayName doc,
                            Type := Type doc, Updated := Some (now w)\<rparr>
                     else r) (documents w))"
  by (simp add: UpdateDocument_def record_call_def time_Now_def Let_def case_prod_beta)

lemma UpdateDocument_result:
  "fst (UpdateDocument doc w) =
     (if fst (next_fault (db_faults w)) then Inl (New ''unable to update doc'') else Inr doc)"
  by (simp add: UpdateDocument_def record_call_def time_Now_def Let_def case_prod_beta)

text \<open>
  Claim C8: an update that carries a description only leaves the display name and the
  type of the stored record as they were, whether the update reaches the database or
  fails; when it returns the merged record for that identifier, the stored description is
  the new one. The identifier is not empty (it is a segment of the request's path).
\<close>

theorem UpdateFields_partial_merge:
  assumes "ident \<noteq> []"
    and "Description updatedDoc \<noteq> []" and "DisplayName updatedDoc = []" and "Type updatedDoc = []"
  shows "map_option DisplayName (row_by_id ident (documents (snd (UpdateFields ident updatedDoc w))))
           = map_option DisplayName (row_by_id ident (documents w))
     \<and> map_option Type (row_by_id ident (documents (snd (UpdateFields ident updatedDoc w))))
           = map_option Type (row_by_id ident (documents w))
     \<and> (\<forall>doc. fst (UpdateFields ident updatedDoc w) = Inr doc \<and> ID doc = ident \<longrightarrow>
           map_option Description (row_by_id ident (documents (snd (UpdateFields ident updatedDoc w))))
             = Some (Description updatedDoc))"
proof -
  define w1 where
    "w1 = w\<lparr>calls := calls w @ [FindByIDCall ident], db_faults := snd (next_fault (db_faults w))\<rparr>"
  obtain entity where found: "repo_FindByID ident w = (Some entity, None, w1)"
    and entity: "ID entity = [] \<and> DisplayName entity = [] \<and> Type entity = []
        \<or> (\<exists>r. row_by_id ident (documents w) = Some r \<and> ID entity = ident
              \<and> DisplayName entity = DisplayName r \<and> Type entity = Type r)"
    using repo_FindByID_entity [of ident w] unfolding w1_def by blast
  define merged where "merged = entity\<lparr>Description := Description updatedDoc\<rparr>"
  define g where
    "g = (\<lambda>r :: Document. if ID r = ID merged
              then r\<lparr>Description := Description merged, DisplayName := DisplayName merged,
                     Type := Type merged, Updated := Some (now w1)\<rparr>
              else r)"
  have call: "UpdateFields ident updatedDoc w = UpdateDocument merged w1"
    using assms found by (simp add: UpdateFields_def Let_def merged_def)
  have docs_w1: "documents w1 = documents w"
    by (simp add: w1_def)
  have ids: "\<And>r. ID (g r) = ID r"
    by (simp add: g_def)
  have lookup: "row_by_id ident (map g (documents w)) = map_option g (row_by_id ident (documents w))"
    using ids by (rule row_by_id_map)
  show ?thesis
  proof (cases "fst (next_fault (db_faults w1))")
    case True
    then show ?thesis
      by (simp add: call UpdateDocument_documents UpdateDocument_result docs_w1)
  next
    case False
    then have docs: "documents (snd (UpdateFields ident updatedDoc w)) = map g (documents w)"
      by (simp add: call UpdateDocument_documents docs_w1 g_def)
    have res: "fst (UpdateFields ident updatedDoc w) = Inr merged"
      using False by (simp add: call UpdateDocument_result)
    from entity show ?thesis
    proof
      assume zero: "ID entity = [] \<and> DisplayName entity = [] \<and> Type entity = []"
      then have other: "ID merged \<noteq> ident"
        using assms(1) by (simp add: merged_def)
      have "map_option g (row_by_id ident (documents w)) = row_by_id ident (documents w)"
      proof (cases "row_by_id ident (documents w)")
        case None
        then show ?thesis by simp
      next
        case (Some r)
        with row_by_id_ID [OF Some] other show ?thesis
          by (simp add: g_def)
      qed
      with other show ?thesis
        by (simp add: docs res lookup)
    next
      assume "\<exists>r. row_by_id ident (documents w) = Some r \<and> ID entity = ident
              \<and> DisplayName entity = DisplayName r \<and> Type entity = Type r"
      then obtain r where r: "row_by_id ident (documents w) = Some r" "ID entity = ident"
           "DisplayName entity = DisplayName r" "Type entity = Type r"
        by blast
      have "ID r = ID merged"
        using row_by_id_ID [OF r(1)] r(2) by (simp add: merged_def)
      then have "DisplayName (g r) = DisplayName r" and "Type (g r) = Type r"
        and "Description (g r) = Description updatedDoc"
        using r(3,4) by (simp_all add: g_def merged_def)
      then show ?thesis
        by (simp add: docs res lookup r(1))
    qed
  qed
qed

text \<open>A new description for the stored paper \<^verbatim>\<open>7\<close>.\<close>

theorem UpdateFields_partial_merge_witness:
  "''7'' \<noteq> [] \<and> Description (Document_zero\<lparr>Description := ''second edition''\<rparr>) \<noteq> []
   \<and> DisplayName (Document_zero\<lparr>Description := ''second edition''\<rparr>) = []
   \<and> Type (Document_zero\<lparr>Description := ''second edition''\<rparr>) = []
   \<and> fst (UpdateFields ''7''
       (Document_zero\<lparr>Description := ''second edition''\<rparr>)
       \<lparr>bucket = [], bucket_faults = [],
        documents = [Document_zero\<lparr>ID := ''7'', DisplayName := ''Notes'', Type := ''paper''\<rparr>],
        tagged_resources = [], db_faults = [], now = 9, entropy = 0, calls = []\<rparr>)
     = Inr (Document_zero\<lparr>ID := ''7'', DisplayName := ''Notes'', Type := ''paper'',
                          Description := ''second edition''\<rparr>)
   \<and> map_option DisplayName (row_by_id ''7'' (documents (snd (UpdateFields ''7''
       (Document_zero\<lparr>Description := ''second edition''\<rparr>)
       \<lparr>bucket = [], bucket_faults = [],
        documents = [Document_zero\<lparr>ID := ''7'', DisplayName := ''Notes'', Type := ''paper''\<rparr>],
        tagged_resources = [], db_faults = [], now = 9, entropy = 0, calls = []\<rparr>))))
     = Some ''Notes''
   \<and> map_option Type (row_by_id ''7'' (documents (snd (UpdateFields ''7''
       (Document_zero\<lparr>Description := ''second edition''\<rparr>)
       \<lparr>bucket = [], bucket_faults = [],
        documents = [Document_zero\<lparr>ID := ''7'', DisplayName := ''Notes'', Type := ''paper''\<rparr>],
        tagged_resources = [], db_faults = [], now = 9, entropy = 0, calls = []\<rparr>))))
     = Some ''paper''
   \<and> map_option Description (row_by_id ''7'' (documents (snd (UpdateFields ''7''
       (Document_zero\<lparr>Description := ''second edition''\<rparr>)
       \<lparr>bucket = [], bucket_faults = [],
        documents = [Document_zero\<lparr>ID := ''7'', DisplayName := ''Notes'', Type := ''paper''\<rparr>],
        tagged_resources = [], db_faults = [], now = 9, entropy = 0, calls = []\<rparr>))))
     = Some ''second edition''"
proof -
  let ?u = "Document_zero\<lparr>Description := ''second edition''\<rparr>"
  let ?w = "\<lparr>bucket = [], bucket_faults = [],
        documents = [Document_zero\<lparr>ID := ''7'', DisplayName := ''Notes'', Type := ''paper''\<rparr>],
        tagged_resources = [], db_faults = [], now = 9, entropy = 0, calls = []\<rparr>"
  have merged: "fst (UpdateFields ''7'' ?u ?w)
      = Inr (Document_zero\<lparr>ID := ''7'', DisplayName := ''Notes'', Type := ''paper'',
                           Description := ''second edition''\<rparr>)"
    by code_simp
  show ?thesis
    using merged UpdateFields_partial_merge [of "''7''" ?u ?w]
    by (simp add: Document_zero_def row_by_id_def)
qed

subsection \<open>Scan\<close>

text \<open>What the goroutine sends for a key: only keys with the extension \<^verbatim>\<open>.pdf\<close> yield a
  document; its path is the key, its type \<^verbatim>\<open>book\<close>, its creation time the current time.\<close>

lemma Scan_body_document:
  assumes "fst (Scan_body k w) = Send doc"
  shows "Ext k = ''.pdf'' \<and> Scan_name k ''.pdf'' = Some (Name doc) \<and> DisplayName doc = Name doc
     \<and> Path doc = k \<and> Type doc = ''book'' \<and> Created doc = now w
     \<and> ID doc = uuid_String (entropy w)"
  using assms
  by (auto simp: Scan_body_def Let_def uuid_New_def time_Now_def split: if_splits option.splits)

text \<open>
  Claim C5: every key with the extension \<^verbatim>\<open>.pdf\<close> yields a document whose display name and
  stored name are the key without its directory and its extension. The code removes
  every occurrence of the extension and of \<^verbatim>\<open>filepath.Dir(path)\<close> from the key. For the key
  \<^verbatim>\<open>notes.v2.pdf\<close> the directory is \<^verbatim>\<open>.\<close>, so every dot goes: the names are \<^verbatim>\<open>notesv2\<close>, not
  \<^verbatim>\<open>notes.v2\<close>. For \<^verbatim>\<open>books/books.pdf\<close> the file name goes with the directory and the names
  are empty.
\<close>

theorem Scan_body_dotted_name:
  "fst (Scan_body ''notes.v2.pdf''
      \<lparr>bucket = [], bucket_faults = [], documents = [], tagged_resources = [],
       db_faults = [], now = 0, entropy = 0, calls = []\<rparr>)
     = Send \<lparr>ID = ''00000000-0000-0000-0000-000000000000'', DisplayName = ''notesv2'',
             Name = ''notesv2'', Path = ''notes.v2.pdf'', Type = ''book'', Description = [],
             Tags = [], Created = 0, Updated = None\<rparr>
   \<and> Scan_name ''books/books.pdf'' (Ext ''books/books.pdf'') = Some []"
  by code_simp

text \<open>
  Claim C10: for a key that passes the \<^verbatim>\<open>.pdf\<close> filter the derived name is not empty when
  \<^verbatim>\<open>name[0]\<close> is read. For the keys \<^verbatim>\<open>.pdf\<close> and \<^verbatim>\<open>/.pdf\<close> nothing is left of the key after the
  two replacements, the index is out of range, and a scan of a bucket that holds the key
  \<^verbatim>\<open>.pdf\<close> panics.
\<close>

theorem Scan_panics_on_bare_extension:
  "Ext ''.pdf'' = ''.pdf'' \<and> Scan_name ''.pdf'' (Ext ''.pdf'') = None
   \<and> Ext ''/.pdf'' = ''.pdf'' \<and> Scan_name ''/.pdf'' (Ext ''/.pdf'') = None
   \<and> fst (Scan \<lparr>bucket = [\<lparr>Key = ''.pdf'', IsDir = False, Data = []\<rparr>], bucket_faults = [],
                 documents = [], tagged_resources = [], db_faults = [], now = 0, entropy = 0,
                 calls = []\<rparr>) = Panicked"
  by code_simp











text \<open>
  A listing delivers keys of the bucket only, and all of them when the iterator does not
  fail: a second listing of an unchanged bucket delivers nothing new.
\<close>

lemma List_loop_delivers:
  "set (fst (List_loop objs fs)) \<subseteq> Key ` {obj \<in> set objs. \<not> IsDir obj}"
  by (induction objs arbitrary: fs) (auto simp: Let_def case_prod_beta)

lemma List_loop_complete:
  "\<forall>fault \<in> set fs. \<not> fault \<Longrightarrow>
   fst (List_loop objs fs) = map Key (filter (\<lambda>obj. \<not> IsDir obj) objs)"
proof (induction objs arbitrary: fs)
  case Nil
  then show ?case by simp
next
  case (Cons obj objs)
  from Cons.prems have "\<not> fst (next_fault fs)" and "\<forall>fault \<in> set (snd (next_fault fs)). \<not> fault"
    by (auto simp: next_fault_def split: list.splits)
  with Cons.IH [of "snd (next_fault fs)"] show ?case
    by (simp add: Let_def case_prod_beta)
qed

lemma List_unchanged_bucket:
  assumes "bucket w2 = bucket w" and "\<forall>fault \<in> set (bucket_faults w). \<not> fault"
  shows "set (fst (List w2)) \<subseteq> set (fst (List w))"
proof -
  have "fst (List w) = map Key (filter (\<lambda>obj. \<not> IsDir obj) (bucket w))"
    using assms(2) by (simp add: List_def record_call_def Let_def case_prod_beta List_loop_complete)
  moreover have "set (fst (List w2)) \<subseteq> Key ` {obj \<in> set (bucket w). \<not> IsDir obj}"
    using List_loop_delivers [of "bucket w" "bucket_faults w2"] assms(1)
    by (simp add: List_def record_call_def Let_def case_prod_beta)
  ultimately show ?thesis
    by auto
qed



end
